theory Spec2Isabelle
  imports Main
begin

section \<open>Host values: numbers and strings\<close>

text \<open>
  The converter of \<^verbatim>\<open>src/useConverter.ts\<close> is string code around three host primitives:
  \<^verbatim>\<open>String(value)\<close>, \<^verbatim>\<open>Number(formatted)\<close> and \<^verbatim>\<open>new RegExp(...)\<close>. A string is a list of
  code units (\<open>char\<close>, so code units below 256).

  A number is modelled by what \<^verbatim>\<open>String\<close> prints for it. The host prints a finite
  non-zero number from its shortest decimal digits \<open>s\<close> (no leading and no trailing
  zero) and the position \<open>n\<close> of the decimal point, the value being
  \<open>0.s \<times> 10\<^sup>n\<close>; \<open>Finite neg s n\<close> is that number. Every double is such a
  value.
\<close>

datatype number =
    NaN
  | Infinity bool
  | Zero bool
  | Finite bool string int

datatype error = TypeError | RangeError

definition isDigit :: "char \<Rightarrow> bool" where
  "isDigit c = (c \<in> set ''0123456789'')"

definition isNonZeroDigit :: "char \<Rightarrow> bool" where
  "isNonZeroDigit c = (c \<in> set ''123456789'')"

text \<open>The numbers the host can hold in this representation.\<close>

fun wellFormed :: "number \<Rightarrow> bool" where
  "wellFormed (Finite neg s n) =
     (s \<noteq> [] \<and> list_all isDigit s \<and> isNonZeroDigit (hd s) \<and> isNonZeroDigit (last s))"
| "wellFormed x = True"

fun showNat :: "nat \<Rightarrow> string" where
  "showNat n =
     (if n < 10 then [''0123456789'' ! n]
      else showNat (n div 10) @ [''0123456789'' ! (n mod 10)])"

definition signOf :: "bool \<Rightarrow> string" where
  "signOf neg = (if neg then ''-'' else [])"

text \<open>
  \<^verbatim>\<open>String(value)\<close>, the host's Number::toString in radix 10: plain decimal notation
  when \<open>-6 < n \<le> 21\<close>, exponent notation otherwise; both zeros print as \<^verbatim>\<open>0\<close>.
\<close>

fun JS_String :: "number \<Rightarrow> string" where
  "JS_String NaN = ''NaN''"
| "JS_String (Infinity neg) = signOf neg @ ''Infinity''"
| "JS_String (Zero neg) = ''0''"
| "JS_String (Finite neg s n) = signOf neg @
     (let k = int (length s) in
      if k \<le> n \<and> n \<le> 21 then s @ replicate (nat (n - k)) (CHR ''0'')
      else if 0 < n \<and> n \<le> 21 then take (nat n) s @ ''.'' @ drop (nat n) s
      else if - 6 < n \<and> n \<le> 0 then ''0.'' @ replicate (nat (- n)) (CHR ''0'') @ s
      else
        (let e = n - 1;
             exponent = (if e < 0 then ''-'' else ''+'') @ showNat (nat \<bar>e\<bar>)
         in if k = 1 then s @ ''e'' @ exponent
            else take 1 s @ ''.'' @ drop 1 s @ ''e'' @ exponent))"

text \<open>
  The value of the decimal numeral \<open>ip.fp\<close>: leading zeros and trailing zeros carry no
  value, and a numeral of zeros only is the zero of its sign. The host rounds the value
  to the nearest double, and rounding is not modelled: the value is given where there is
  nothing to round, that is for at most 15 significant digits well inside the range of
  the doubles (such a decimal is the shortest one of its nearest double, so the host
  prints the number back with these digits), and is \<open>None\<close> otherwise.
\<close>

definition stripTrailingZeros :: "string \<Rightarrow> string" where
  "stripTrailingZeros s = rev (dropWhile (\<lambda>c. c = CHR ''0'') (rev s))"

definition exact :: "string \<Rightarrow> int \<Rightarrow> bool" where
  "exact s n = (length s \<le> 15 \<and> - 300 \<le> n \<and> n \<le> 300)"

definition decimalValue :: "bool \<Rightarrow> string \<Rightarrow> string \<Rightarrow> number option" where
  "decimalValue neg ip fp =
     (let all = ip @ fp;
          leading = takeWhile (\<lambda>c. c = CHR ''0'') all;
          s = stripTrailingZeros (dropWhile (\<lambda>c. c = CHR ''0'') all);
          n = int (length ip) - int (length leading)
      in if s = [] then Some (Zero neg)
         else if exact s n then Some (Finite neg s n)
         else None)"

text \<open>
  \<^verbatim>\<open>Number(formatted)\<close>, the host's StringToNumber, on the strings the converter
  builds: an optional sign, digits, an optional \<^verbatim>\<open>.\<close> and digits. The empty string is
  \<open>+0\<close>; a sign or a dot without any digit, and a string with anything left over
  after the numeral, are \<open>NaN\<close>. (The host also reads white space, exponents,
  \<^verbatim>\<open>Infinity\<close> and radix prefixes; \<open>toNumber\<close> never builds such a string, see
  \<open>canonical_shape\<close> below.) The result is \<open>None\<close> where the host rounds.
\<close>

definition JS_Number :: "string \<Rightarrow> number option" where
  "JS_Number str =
     (if str = [] then Some (Zero False)
      else
        (let neg = (hd str = CHR ''-'');
             body = (if hd str = CHR ''-'' \<or> hd str = CHR ''+'' then tl str else str);
             ip = takeWhile isDigit body;
             r = dropWhile isDigit body;
             dot = (r \<noteq> [] \<and> hd r = CHR ''.'');
             fp = (if dot then takeWhile isDigit (tl r) else []);
             rest = (if dot then dropWhile isDigit (tl r) else r)
         in if rest \<noteq> [] \<or> (ip = [] \<and> fp = []) then Some NaN
            else decimalValue neg ip fp))"

section \<open>The configuration\<close>

text \<open>
  The configuration is what \<open>useConverter\<close> destructures from
  \<^verbatim>\<open>{ ...defaultOptions, ...options }\<close>: a precision and two separators, each separator
  one character and the precision a natural number, as the specification's data model
  has them.
\<close>

record Configuration =
  precision' :: nat
  groupSeparator' :: char
  decimalSeparator' :: char

definition NEGATIVE_SIGN :: char where
  "NEGATIVE_SIGN = CHR ''-''"

definition DOT_SIGN :: char where
  "DOT_SIGN = CHR ''.''"

definition defaultOptions :: Configuration where
  "defaultOptions =
     \<lparr>precision' = 2, groupSeparator' = CHR '' '', decimalSeparator' = CHR '',''\<rparr>"

section \<open>The two regular expressions\<close>

text \<open>
  \<^verbatim>\<open>new RegExp(`\\${groupSeparator}`, 'g')\<close> is a backslash followed by the separator.
  The host reads that escape as: a character class for \<^verbatim>\<open>d D s S w W\<close>, a zero-width
  assertion for \<^verbatim>\<open>b B\<close>, a control character for \<^verbatim>\<open>t n v f r\<close> and for \<^verbatim>\<open>0\<close> to \<^verbatim>\<open>7\<close>,
  the two characters backslash and \<^verbatim>\<open>c\<close> for \<^verbatim>\<open>c\<close>, and the character itself for every
  other one.
\<close>

datatype atom =
    Lit char
  | DigitClass bool
  | SpaceClass bool
  | WordClass bool
  | Assertion
  | BackslashC

definition isSpace :: "char \<Rightarrow> bool" where
  "isSpace c =
     (c \<in> {CHR 0x09, CHR 0x0A, CHR 0x0B, CHR 0x0C, CHR 0x0D, CHR 0x20, CHR 0xA0})"

definition isWord :: "char \<Rightarrow> bool" where
  "isWord c =
     (c \<in> set ''abcdefghijklmnopqrstuvwxyzABCDEFGHIJKLMNOPQRSTUVWXYZ0123456789_'')"

definition groupSeparatorRegex :: "char \<Rightarrow> atom" where
  "groupSeparatorRegex g =
     (if g = CHR ''d'' then DigitClass True
      else if g = CHR ''D'' then DigitClass False
      else if g = CHR ''s'' then SpaceClass True
      else if g = CHR ''S'' then SpaceClass False
      else if g = CHR ''w'' then WordClass True
      else if g = CHR ''W'' then WordClass False
      else if g = CHR ''b'' \<or> g = CHR ''B'' then Assertion
      else if g = CHR ''c'' then BackslashC
      else if g = CHR ''t'' then Lit (CHR 0x09)
      else if g = CHR ''n'' then Lit (CHR 0x0A)
      else if g = CHR ''v'' then Lit (CHR 0x0B)
      else if g = CHR ''f'' then Lit (CHR 0x0C)
      else if g = CHR ''r'' then Lit (CHR 0x0D)
      else if g = CHR ''0'' then Lit (CHR 0x00)
      else if g = CHR ''1'' then Lit (CHR 0x01)
      else if g = CHR ''2'' then Lit (CHR 0x02)
      else if g = CHR ''3'' then Lit (CHR 0x03)
      else if g = CHR ''4'' then Lit (CHR 0x04)
      else if g = CHR ''5'' then Lit (CHR 0x05)
      else if g = CHR ''6'' then Lit (CHR 0x06)
      else if g = CHR ''7'' then Lit (CHR 0x07)
      else Lit g)"

fun atomMatches :: "atom \<Rightarrow> char \<Rightarrow> bool" where
  "atomMatches (Lit a) c = (c = a)"
| "atomMatches (DigitClass pos) c = (isDigit c = pos)"
| "atomMatches (SpaceClass pos) c = (isSpace c = pos)"
| "atomMatches (WordClass pos) c = (isWord c = pos)"
| "atomMatches Assertion c = False"
| "atomMatches BackslashC c = False"

fun removeBackslashC :: "string \<Rightarrow> string" where
  "removeBackslashC (a # b # cs) =
     (if a = CHR 0x5C \<and> b = CHR ''c'' then removeBackslashC cs
      else a # removeBackslashC (b # cs))"
| "removeBackslashC cs = cs"

text \<open>\<^verbatim>\<open>value.replace(groupSeparatorRegex, '')\<close>: every match is deleted.\<close>

definition deleteMatches :: "atom \<Rightarrow> string \<Rightarrow> string" where
  "deleteMatches a str =
     (if a = BackslashC then removeBackslashC str
      else filter (\<lambda>c. \<not> atomMatches a c) str)"

text \<open>
  \<^verbatim>\<open>value.match(extractionRegex)\<close> for
  \<^verbatim>\<open>new RegExp(`([-]?)([0-9]*)([${decimalSeparator}]?)([0-9]*)`)\<close>. Every part may
  be empty, so the pattern matches at index 0 and each part takes what it can. The
  result is \<open>None\<close> for \<^verbatim>\<open>null\<close>, and the fourth group is \<open>None\<close> for \<^verbatim>\<open>undefined\<close>.
  Three separators change the pattern itself:
  \<^item> \<^verbatim>\<open>^\<close>: the class \<^verbatim>\<open>[^]\<close> is every character;
  \<^item> \<^verbatim>\<open>]\<close>: \<^verbatim>\<open>[]\<close> is the empty class, which no character matches, followed by
    \<^verbatim>\<open>]?\<close>: the pattern matches nowhere;
  \<^item> backslash: \<^verbatim>\<open>[\]?)([0-9]\<close> is one class, so the pattern has three groups, the
    third a run of that class, and no fourth.
\<close>

type_synonym groups = "string \<times> string \<times> string \<times> string option"

definition separatorClass :: "char \<Rightarrow> char \<Rightarrow> bool" where
  "separatorClass d c = (if d = CHR ''^'' then True else c = d)"

definition escapedClass :: "char \<Rightarrow> bool" where
  "escapedClass c = (c \<in> set '']?)(['' \<or> isDigit c)"

definition extractionRegex :: "char \<Rightarrow> string \<Rightarrow> groups option" where
  "extractionRegex d str =
     (if d = CHR '']'' then None
      else
        (let sign = (if str \<noteq> [] \<and> hd str = CHR ''-'' then ''-'' else []);
             r1 = drop (length sign) str;
             integer = takeWhile isDigit r1;
             r2 = dropWhile isDigit r1
         in if d = CHR 0x5C then Some (sign, integer, takeWhile escapedClass r2, None)
            else
              (let separator = (if r2 \<noteq> [] \<and> separatorClass d (hd r2) then [hd r2] else []);
                   r3 = drop (length separator) r2
               in Some (sign, integer, separator, Some (takeWhile isDigit r3)))))"

section \<open>The converter\<close>

text \<open>
  \<^verbatim>\<open>.replace(/([0-9]{3})/g, `$1${groupSeparator}`)\<close>: scanning from the left, every
  run of three digits is followed by the separator.
\<close>

fun afterEveryThree :: "char \<Rightarrow> string \<Rightarrow> string" where
  "afterEveryThree g (a # b # c # cs) =
     (if isDigit a \<and> isDigit b \<and> isDigit c then a # b # c # g # afterEveryThree g cs
      else a # afterEveryThree g (b # c # cs))"
| "afterEveryThree g cs = cs"

definition setGroupSeparators :: "char \<Rightarrow> string \<Rightarrow> string" where
  "setGroupSeparators g value =
     (let enhanced = rev (afterEveryThree g (rev value))
      in if enhanced \<noteq> [] \<and> hd enhanced = g then tl enhanced else enhanced)"

text \<open>\<^verbatim>\<open>String(value).replace(DOT_SIGN, decimalSeparator)\<close>: the first dot only.\<close>

fun replaceFirst :: "char \<Rightarrow> char \<Rightarrow> string \<Rightarrow> string" where
  "replaceFirst p r [] = []"
| "replaceFirst p r (c # cs) = (if c = p then r # cs else c # replaceFirst p r cs)"

text \<open>
  The block \<^verbatim>\<open>if (integer !== '') { ... }\<close> of \<open>toString\<close>: what it appends to the sign.
\<close>

definition groupedInteger :: "Configuration \<Rightarrow> string \<Rightarrow> string" where
  "groupedInteger cfg integer =
     (if integer \<noteq> [] then
        (let cleared = deleteMatches (groupSeparatorRegex (groupSeparator' cfg)) integer
         in setGroupSeparators (groupSeparator' cfg) cleared)
      else [])"

text \<open>
  The first lines of \<open>toString\<close>: the host's text with its first dot replaced, and a
  sign put before it for negative zero (\<^verbatim>\<open>value === 0\<close> holds of both zeros, and
  \<^verbatim>\<open>1 / value\<close> is \<^verbatim>\<open>-Infinity\<close> for the negative one).
\<close>

definition valueAsString :: "Configuration \<Rightarrow> number \<Rightarrow> string" where
  "valueAsString cfg value =
     (let valueAsString = replaceFirst DOT_SIGN (decimalSeparator' cfg) (JS_String value)
      in case value of
           Zero isNegativeZero \<Rightarrow>
             (let negativeSign = (if isNegativeZero then [NEGATIVE_SIGN] else [])
              in negativeSign @ valueAsString)
         | _ \<Rightarrow> valueAsString)"

text \<open>
  \<open>toString\<close>. Destructuring \<^verbatim>\<open>null\<close> raises a TypeError, and so does
  \<^verbatim>\<open>fraction.length\<close> on an undefined fraction, which \<^verbatim>\<open>precision && ...\<close> reads only
  when the precision is not zero. \<^verbatim>\<open>new Array(length)\<close> raises a RangeError when the
  length is not below \<open>2\<^sup>3\<^sup>2\<close>. An undefined fraction appended to a string is the
  text \<^verbatim>\<open>undefined\<close>.
\<close>

definition toString :: "Configuration \<Rightarrow> number \<Rightarrow> error + string" where
  "toString cfg value =
     (case extractionRegex (decimalSeparator' cfg) (valueAsString cfg value) of
        None \<Rightarrow> Inl TypeError
      | Some (sign, integer, separator, fraction) \<Rightarrow>
          (let formatted = sign @ groupedInteger cfg integer
           in if precision' cfg \<noteq> 0 then
                (case fraction of
                   None \<Rightarrow> Inl TypeError
                 | Some fraction \<Rightarrow>
                     if length fraction < precision' cfg then
                       (let len = precision' cfg - length fraction
                        in if 2 ^ 32 \<le> len then Inl RangeError
                           else Inr (formatted @ [decimalSeparator' cfg] @ fraction @
                                     replicate len (CHR ''0'')))
                     else Inr (formatted @ separator @ fraction))
              else
                Inr (formatted @ separator @
                     (case fraction of None \<Rightarrow> ''undefined'' | Some fraction \<Rightarrow> fraction))))"

text \<open>
  \<open>toNumber\<close>. The string handed to \<^verbatim>\<open>Number\<close> is \<open>canonical\<close>; the match and the
  destructuring stand before the \<^verbatim>\<open>try\<close>, so their TypeError reaches the caller, and
  \<^verbatim>\<open>Number\<close> raises nothing, so the \<^verbatim>\<open>catch\<close> is never entered. The result is \<open>None\<close>
  where that of \<open>JS_Number\<close> is.
\<close>

definition canonical :: "groups \<Rightarrow> string" where
  "canonical grp =
     (case grp of (sign, integer, separator, fraction) \<Rightarrow>
        sign @ integer @ (if separator \<noteq> [] then [DOT_SIGN] else []) @
        (case fraction of None \<Rightarrow> ''undefined'' | Some fraction \<Rightarrow> fraction))"

definition toNumber :: "Configuration \<Rightarrow> string \<Rightarrow> (error + number) option" where
  "toNumber cfg value =
     (if value = [] then Some (Inr NaN)
      else
        (case extractionRegex (decimalSeparator' cfg)
                (deleteMatches (groupSeparatorRegex (groupSeparator' cfg)) value) of
           None \<Rightarrow> Some (Inl TypeError)
         | Some grp \<Rightarrow> map_option Inr (JS_Number (canonical grp))))"

section \<open>What the claims speak of\<close>

text \<open>
  The sign, the integer digits and the fraction digits of the host's decimal text of a
  number, read off the number itself; \<open>JS_String_plain\<close> below shows that they are the
  parts of \<open>JS_String\<close>. A number is in plain decimal notation when the host prints it
  without an exponent.
\<close>

fun negative :: "number \<Rightarrow> bool" where
  "negative (Finite neg s n) = neg"
| "negative (Zero neg) = neg"
| "negative (Infinity neg) = neg"
| "negative NaN = False"

fun plainDecimal :: "number \<Rightarrow> bool" where
  "plainDecimal (Finite neg s n) = (- 6 < n \<and> n \<le> 21)"
| "plainDecimal (Zero neg) = True"
| "plainDecimal x = False"

fun integerPart :: "number \<Rightarrow> string" where
  "integerPart (Finite neg s n) =
     (if 0 < n then take (nat n) s @ replicate (nat n - length s) (CHR ''0'') else ''0'')"
| "integerPart (Zero neg) = ''0''"
| "integerPart x = []"

fun fractionPart :: "number \<Rightarrow> string" where
  "fractionPart (Finite neg s n) =
     (if 0 < n then drop (nat n) s else replicate (nat (- n)) (CHR ''0'') @ s)"
| "fractionPart x = []"

text \<open>The numbers that \<open>JS_Number\<close> reads back without rounding.\<close>

fun shortDigits :: "number \<Rightarrow> bool" where
  "shortDigits (Finite neg s n) = (length s \<le> 15)"
| "shortDigits x = True"

text \<open>A separator followed by the fraction digits, and nothing for no fraction digits.\<close>

definition fractionText :: "char \<Rightarrow> string \<Rightarrow> string" where
  "fractionText d fp = (if fp = [] then [] else d # fp)"

text \<open>
  Grouping as the specification words it: the digits are cut into groups of three from
  the right, and the groups are joined with the separator.
\<close>

function groupsFromRight :: "char \<Rightarrow> string \<Rightarrow> string" where
  "groupsFromRight g ds =
     (if length ds \<le> 3 then ds
      else groupsFromRight g (take (length ds - 3) ds) @ g # drop (length ds - 3) ds)"
  by pat_completeness auto
termination
  by (relation "measure (\<lambda>(g, ds). length ds)") auto

declare groupsFromRight.simps [simp del]

definition stripLeading :: "char \<Rightarrow> string \<Rightarrow> string" where
  "stripLeading g e = (if e \<noteq> [] \<and> hd e = g then tl e else e)"

text \<open>
  Parsing as the specification words it: every group separator is deleted, then the
  rest is read from the left as an optional sign, a run of digits, an optional decimal
  separator and a run of digits, and the host reads the sign, the integer digits, a dot
  if a separator was there, and the fraction digits.
\<close>

fun optionalChar :: "char \<Rightarrow> string \<Rightarrow> string \<times> string" where
  "optionalChar a [] = ([], [])"
| "optionalChar a (c # cs) = (if c = a then ([c], cs) else ([], c # cs))"

fun digitRun :: "string \<Rightarrow> string \<times> string" where
  "digitRun [] = ([], [])"
| "digitRun (c # cs) =
     (if isDigit c then (case digitRun cs of (ds, rest) \<Rightarrow> (c # ds, rest)) else ([], c # cs))"

definition parseAsSpecified :: "Configuration \<Rightarrow> string \<Rightarrow> number option" where
  "parseAsSpecified cfg value =
     (case optionalChar (CHR ''-'') (filter (\<lambda>c. c \<noteq> groupSeparator' cfg) value) of
        (sign, r1) \<Rightarrow>
     (case digitRun r1 of (integerDigits, r2) \<Rightarrow>
     (case optionalChar (decimalSeparator' cfg) r2 of (separator, r3) \<Rightarrow>
     (case digitRun r3 of (fractionDigits, r4) \<Rightarrow>
        JS_Number (sign @ integerDigits @ (if separator \<noteq> [] then ''.'' else []) @
                   fractionDigits)))))"

section \<open>The parts of the host's text\<close>

lemma defaultOptions_simps [simp]:
  "precision' defaultOptions = 2" "groupSeparator' defaultOptions = CHR '' ''"
  "decimalSeparator' defaultOptions = CHR '',''"
  by (simp_all add: defaultOptions_def)

lemma isDigit_zero [simp]: "isDigit (CHR ''0'')"
  by (simp add: isDigit_def)

lemma isNonZeroDigit_isDigit: "isNonZeroDigit c \<Longrightarrow> isDigit c"
  by (auto simp: isDigit_def isNonZeroDigit_def)

lemma JS_String_plain:
  assumes "wellFormed x" "plainDecimal x" "x = Finite neg s n"
  shows "JS_String x = signOf neg @ integerPart x @ fractionText (CHR ''.'') (fractionPart x)"
  using assms by (auto simp: fractionText_def Let_def)

lemma digits_integerPart: "wellFormed x \<Longrightarrow> list_all isDigit (integerPart x)"
  by (cases x) (auto simp: list_all_iff dest: in_set_takeD)

lemma digits_fractionPart: "wellFormed x \<Longrightarrow> list_all isDigit (fractionPart x)"
  by (cases x) (auto simp: list_all_iff dest: in_set_dropD)

lemma integerPart_nonempty: "wellFormed x \<Longrightarrow> plainDecimal x \<Longrightarrow> integerPart x \<noteq> []"
  by (cases x) auto

lemma replaceFirst_digits:
  "list_all isDigit ip \<Longrightarrow> \<not> isDigit p \<Longrightarrow> replaceFirst p r (ip @ rest) = ip @ replaceFirst p r rest"
  by (induction ip) auto

lemma dot_not_digit [simp]: "\<not> isDigit (CHR ''.'')" "\<not> isDigit (CHR ''-'')"
  by (simp_all add: isDigit_def)

lemma valueAsString_plain:
  assumes "wellFormed x" "plainDecimal x"
  shows "valueAsString cfg x =
     signOf (negative x) @ integerPart x @ fractionText (decimalSeparator' cfg) (fractionPart x)"
proof (cases x)
  case (Finite neg s n)
  have "replaceFirst (CHR ''.'') (decimalSeparator' cfg)
          (signOf neg @ integerPart x @ fractionText (CHR ''.'') (fractionPart x))
        = signOf neg @ integerPart x @ fractionText (decimalSeparator' cfg) (fractionPart x)"
    using digits_integerPart [OF assms(1)]
    by (simp add: signOf_def replaceFirst_digits fractionText_def)
  then show ?thesis
    using JS_String_plain [OF assms Finite] Finite
    by (simp add: valueAsString_def DOT_SIGN_def)
qed (use assms in \<open>auto simp: valueAsString_def DOT_SIGN_def NEGATIVE_SIGN_def signOf_def fractionText_def\<close>)


lemma takeWhile_digits_tail:
  "list_all isDigit ip \<Longrightarrow> \<not> isDigit d \<Longrightarrow>
   takeWhile isDigit (ip @ fractionText d fp) = ip"
  by (simp add: fractionText_def list_all_iff)

lemma dropWhile_digits_tail:
  "list_all isDigit ip \<Longrightarrow> \<not> isDigit d \<Longrightarrow>
   dropWhile isDigit (ip @ fractionText d fp) = fractionText d fp"
  by (simp add: fractionText_def list_all_iff)

lemma takeWhile_all: "list_all isDigit fp \<Longrightarrow> takeWhile isDigit fp = fp"
  by (simp add: list_all_iff)

lemma hd_digits_not_minus: "list_all isDigit ip \<Longrightarrow> ip \<noteq> [] \<Longrightarrow> hd ip \<noteq> CHR ''-''"
  by (cases ip) auto

lemma dropWhile_all: "\<forall>x\<in>set xs. P x \<Longrightarrow> dropWhile P xs = []"
  by simp

lemma extraction_digits:
  assumes "d \<noteq> CHR '']''" "d \<noteq> CHR 0x5C" "list_all isDigit ip" "ip \<noteq> []"
  shows "extractionRegex d (signOf neg @ ip) = Some (signOf neg, ip, [], Some [])"
  using assms hd_digits_not_minus [of ip]
  by (cases neg) (simp_all add: extractionRegex_def signOf_def Let_def list_all_iff dropWhile_all)

lemma extraction_separator:
  assumes "d \<noteq> CHR '']''" "d \<noteq> CHR 0x5C" "\<not> isDigit d"
    and "list_all isDigit ip" "ip \<noteq> []" "list_all isDigit fp"
  shows "extractionRegex d (signOf neg @ ip @ d # fp) = Some (signOf neg, ip, [d], Some fp)"
  using assms hd_digits_not_minus [of ip]
  by (cases neg)
    (simp_all add: extractionRegex_def signOf_def Let_def list_all_iff separatorClass_def)

lemma extraction_plain:
  assumes "d \<noteq> CHR '']''" "d \<noteq> CHR 0x5C" "\<not> isDigit d"
    and "list_all isDigit ip" "ip \<noteq> []" "list_all isDigit fp"
  shows "extractionRegex d (signOf neg @ ip @ fractionText d fp)
         = Some (signOf neg, ip, (if fp = [] then [] else [d]), Some fp)"
  using assms extraction_digits [of d ip neg] extraction_separator [of d ip fp neg]
  by (simp add: fractionText_def)

lemma toString_plain:
  assumes "wellFormed x" "plainDecimal x"
    and "decimalSeparator' cfg \<noteq> CHR '']''" "decimalSeparator' cfg \<noteq> CHR 0x5C"
    and "\<not> isDigit (decimalSeparator' cfg)"
    and "precision' cfg - length (fractionPart x) < 2 ^ 32"
  shows "toString cfg x = Inr (signOf (negative x) @ groupedInteger cfg (integerPart x) @
           fractionText (decimalSeparator' cfg)
             (fractionPart x @ replicate (precision' cfg - length (fractionPart x)) (CHR ''0'')))"
proof -
  have ex: "extractionRegex (decimalSeparator' cfg) (valueAsString cfg x)
        = Some (signOf (negative x), integerPart x,
                (if fractionPart x = [] then [] else [decimalSeparator' cfg]), Some (fractionPart x))"
    using assms(1-5)
    by (simp add: valueAsString_plain extraction_plain digits_integerPart digits_fractionPart
        integerPart_nonempty)
  show ?thesis
    using assms(6) by (auto simp: toString_def ex fractionText_def Let_def)
qed

section \<open>Grouping\<close>

lemma groupsFromRight_short: "length ds \<le> 3 \<Longrightarrow> groupsFromRight g ds = ds"
  by (simp add: groupsFromRight.simps [of g ds])

lemma groupsFromRight_long:
  "\<not> length ds \<le> 3 \<Longrightarrow>
   groupsFromRight g ds =
     groupsFromRight g (take (length ds - 3) ds) @ g # drop (length ds - 3) ds"
  by (simp add: groupsFromRight.simps [of g ds])

lemma setGroupSeparators_alt:
  "setGroupSeparators g ds = stripLeading g (rev (afterEveryThree g (rev ds)))"
  by (simp add: setGroupSeparators_def stripLeading_def Let_def)

lemma stripLeading_append: "e \<noteq> [] \<Longrightarrow> stripLeading g (e @ r) = stripLeading g e @ r"
  by (simp add: stripLeading_def)

lemma afterEveryThree_Nil_iff [simp]: "afterEveryThree g xs = [] \<longleftrightarrow> xs = []"
  by (induction g xs rule: afterEveryThree.induct) auto

lemma afterEveryThree_short: "length xs < 3 \<Longrightarrow> afterEveryThree g xs = xs"
  by (induction g xs rule: afterEveryThree.induct) auto

lemma setGroupSeparators_snoc3:
  assumes "isDigit a" "isDigit b" "isDigit c" "\<not> isDigit g"
  shows "setGroupSeparators g (front @ [a, b, c]) =
           (if front = [] then [a, b, c] else setGroupSeparators g front @ [g, a, b, c])"
  using assms
  by (simp add: setGroupSeparators_alt stripLeading_append) (simp add: stripLeading_def)

lemma setGroupSeparators_short:
  assumes "length ds < 3" "list_all isDigit ds" "\<not> isDigit g"
  shows "setGroupSeparators g ds = ds"
proof -
  have "ds \<noteq> [] \<Longrightarrow> hd ds \<noteq> g"
    using assms by (cases ds) auto
  then show ?thesis
    using assms by (auto simp: setGroupSeparators_alt afterEveryThree_short stripLeading_def)
qed

lemma length_three: "length xs = 3 \<Longrightarrow> \<exists>a b c. xs = [a, b, c]"
  by (auto simp: length_Suc_conv numeral_3_eq_3)

lemma setGroupSeparators_groupsFromRight:
  assumes "list_all isDigit ds" "\<not> isDigit g"
  shows "setGroupSeparators g ds = groupsFromRight g ds"
  using assms
proof (induction g ds rule: groupsFromRight.induct)
  case (1 g ds)
  show ?case
  proof (cases "length ds < 3")
    case True
    then show ?thesis
      using 1 by (simp add: setGroupSeparators_short groupsFromRight_short)
  next
    case False
    define front where "front = take (length ds - 3) ds"
    have "length (drop (length ds - 3) ds) = 3"
      using False by simp
    then obtain a b c where dr: "drop (length ds - 3) ds = [a, b, c]"
      using length_three by blast
    have ds: "ds = front @ [a, b, c]"
      using append_take_drop_id [of "length ds - 3" ds] dr by (simp add: front_def)
    have "list_all isDigit (front @ [a, b, c])"
      using "1.prems"(1) ds by simp
    then have digs: "isDigit a" "isDigit b" "isDigit c" "list_all isDigit front"
      by simp_all
    have step: "setGroupSeparators g ds =
        (if front = [] then [a, b, c] else setGroupSeparators g front @ [g, a, b, c])"
      using setGroupSeparators_snoc3 [OF digs(1-3) "1.prems"(2), of front] ds by simp
    show ?thesis
    proof (cases "length ds = 3")
      case True
      then have "front = []" by (simp add: front_def)
      then show ?thesis
        using step ds True by (simp add: groupsFromRight_short)
    next
      case neq: False
      then have gt: "\<not> length ds \<le> 3" and ne: "front \<noteq> []"
        using False by (auto simp: front_def)
      have ih: "setGroupSeparators g front = groupsFromRight g front"
        using "1.IH" [OF gt] digs(4) "1.prems"(2) by (simp add: front_def)
      show ?thesis
        using step ih gt dr ne by (simp add: groupsFromRight_long front_def)
    qed
  qed
qed

lemma filter_digits: "list_all isDigit ds \<Longrightarrow> \<not> isDigit g \<Longrightarrow> filter (\<lambda>c. c \<noteq> g) ds = ds"
  by (induction ds) auto

lemma filter_groupsFromRight:
  assumes "list_all isDigit ds" "\<not> isDigit g"
  shows "filter (\<lambda>c. c \<noteq> g) (groupsFromRight g ds) = ds"
  using assms
proof (induction g ds rule: groupsFromRight.induct)
  case (1 g ds)
  show ?case
  proof (cases "length ds \<le> 3")
    case True
    then show ?thesis
      using 1 by (simp add: groupsFromRight_short filter_digits)
  next
    case False
    have "list_all isDigit (take (length ds - 3) ds @ drop (length ds - 3) ds)"
      using "1.prems"(1) by simp
    then have digs: "list_all isDigit (take (length ds - 3) ds)"
      "list_all isDigit (drop (length ds - 3) ds)"
      unfolding list_all_append by simp_all
    show ?thesis
      using False "1.IH" [OF False digs(1) "1.prems"(2)] digs(2) "1.prems"(2)
      by (simp add: groupsFromRight_long filter_digits)
  qed
qed

lemma hd_groupsFromRight: "ds \<noteq> [] \<Longrightarrow> hd (groupsFromRight g ds) = hd ds"
proof (induction g ds rule: groupsFromRight.induct)
  case (1 g ds)
  show ?case
  proof (cases "length ds \<le> 3")
    case True
    then show ?thesis by (simp add: groupsFromRight_short)
  next
    case False
    then have ne: "take (length ds - 3) ds \<noteq> []" by auto
    have "groupsFromRight g (take (length ds - 3) ds) \<noteq> []"
      using "1.IH" [OF False ne] ne
      by (cases "length (take (length ds - 3) ds) \<le> 3")
        (simp_all add: groupsFromRight_short groupsFromRight_long)
    then show ?thesis
      using False "1.IH" [OF False ne] ne
      by (simp add: groupsFromRight_long)
  qed
qed

lemma removeBackslashC_digits: "list_all isDigit ds \<Longrightarrow> removeBackslashC ds = ds"
  by (induction ds rule: removeBackslashC.induct) (auto simp: isDigit_def)

lemma filter_keeps_digits:
  "list_all isDigit ds \<Longrightarrow> (\<And>c. isDigit c \<Longrightarrow> P c) \<Longrightarrow> filter P ds = ds"
  by (induction ds) auto

lemma isDigit_isWord: "isDigit c \<Longrightarrow> isWord c"
  by (auto simp: isDigit_def isWord_def)

lemma isDigit_not_isSpace: "isDigit c \<Longrightarrow> \<not> isSpace c"
  by (auto simp: isDigit_def isSpace_def)

lemma isDigit_not_control:
  "isDigit c \<Longrightarrow> c \<notin> {CHR 0x00, CHR 0x01, CHR 0x02, CHR 0x03, CHR 0x04, CHR 0x05, CHR 0x06,
     CHR 0x07, CHR 0x09, CHR 0x0A, CHR 0x0B, CHR 0x0C, CHR 0x0D}"
  by (auto simp: isDigit_def)

lemma deleteMatches_digits:
  assumes "list_all isDigit ds" "\<not> isDigit g"
    and "g \<noteq> CHR ''d''" "g \<noteq> CHR ''w''" "g \<noteq> CHR ''S''"
  shows "deleteMatches (groupSeparatorRegex g) ds = ds"
proof -
  have "\<not> atomMatches (groupSeparatorRegex g) c" if "isDigit c" for c
  proof -
    have "c \<noteq> g"
      using that assms(2) by auto
    then show ?thesis
      using assms(3-) that isDigit_not_control [OF that]
      by (simp add: groupSeparatorRegex_def isDigit_isWord isDigit_not_isSpace)
  qed
  then have "filter (\<lambda>c. \<not> atomMatches (groupSeparatorRegex g) c) ds = ds"
    by (intro filter_keeps_digits assms(1))
  then show ?thesis
    using assms(1) by (simp add: deleteMatches_def removeBackslashC_digits)
qed

section \<open>Reading a number\<close>

lemma decimalValue_not_NaN [simp]: "decimalValue neg ip fp \<noteq> Some NaN"
  by (simp add: decimalValue_def Let_def)

lemma takeWhile_dropWhile_Nil [simp]: "takeWhile P (dropWhile P xs) = []"
  by (induction xs) auto

lemma JS_Number_integer:
  assumes "list_all isDigit integer" "integer \<noteq> []"
  shows "JS_Number (signOf neg @ integer) = decimalValue neg integer []"
proof -
  have hd: "hd integer \<noteq> CHR ''-''" "hd integer \<noteq> CHR ''+''"
    using assms by (cases integer; auto simp: isDigit_def)+
  have tw: "takeWhile isDigit integer = integer" "dropWhile isDigit integer = []"
    using assms by (simp_all add: list_all_iff)
  show ?thesis
    using assms(2) hd
    by (cases neg) (simp_all add: JS_Number_def signOf_def Let_def tw)
qed

lemma JS_Number_dot:
  assumes "list_all isDigit integer" "list_all isDigit fraction"
  shows "JS_Number (signOf neg @ integer @ CHR ''.'' # fraction) =
           (if integer = [] \<and> fraction = [] then Some NaN
            else decimalValue neg integer fraction)"
proof -
  have hd: "hd (integer @ CHR ''.'' # fraction) \<noteq> CHR ''-''"
    "hd (integer @ CHR ''.'' # fraction) \<noteq> CHR ''+''"
    using assms by (cases integer; auto simp: isDigit_def)+
  have tw: "takeWhile isDigit (integer @ CHR ''.'' # fraction) = integer"
    and dw: "dropWhile isDigit (integer @ CHR ''.'' # fraction) = CHR ''.'' # fraction"
    using assms by (simp_all add: list_all_iff)
  have fr: "takeWhile isDigit fraction = fraction" "dropWhile isDigit fraction = []"
    using assms by (simp_all add: list_all_iff)
  show ?thesis
  proof (cases neg)
    case True
    then show ?thesis
      by (simp add: JS_Number_def signOf_def Let_def tw dw fr)
  next
    case False
    then show ?thesis
      using hd by (simp add: JS_Number_def signOf_def Let_def tw dw fr)
  qed
qed

lemma isNonZeroDigit_not_zero: "isNonZeroDigit c \<Longrightarrow> c \<noteq> CHR ''0''"
  by (auto simp: isNonZeroDigit_def)

lemma takeWhile_replicate_same:
  "takeWhile (\<lambda>c. c = a) (replicate m a @ ys) = replicate m a @ takeWhile (\<lambda>c. c = a) ys"
  by (induction m) auto

lemma dropWhile_replicate_same:
  "dropWhile (\<lambda>c. c = a) (replicate m a @ ys) = dropWhile (\<lambda>c. c = a) ys"
  by (induction m) auto

lemma stripTrailingZeros_append:
  assumes "s \<noteq> []" "last s \<noteq> CHR ''0''"
  shows "stripTrailingZeros (s @ replicate m (CHR ''0'')) = s"
proof -
  have "hd (rev s) \<noteq> CHR ''0''"
    using assms by (simp add: hd_rev)
  then have "dropWhile (\<lambda>c. c = CHR ''0'') (rev s) = rev s"
    using assms(1) by (cases "rev s") auto
  then show ?thesis
    by (simp add: stripTrailingZeros_def dropWhile_replicate_same)
qed

lemma leading_zeros_none:
  assumes "s \<noteq> []" "hd s \<noteq> CHR ''0''"
  shows "takeWhile (\<lambda>c. c = CHR ''0'') (s @ r) = []"
    and "dropWhile (\<lambda>c. c = CHR ''0'') (s @ r) = s @ r"
  using assms by (cases s; simp)+

lemma digits_of_plain:
  assumes "0 < n"
  shows "\<exists>m. take (nat n) s @ replicate (nat n - length s) (CHR ''0'') @ drop (nat n) s @
           replicate k (CHR ''0'') = s @ replicate m (CHR ''0'')"
proof (cases "nat n \<le> length s")
  case True
  then show ?thesis by (intro exI [of _ k]) simp
next
  case False
  then show ?thesis
    by (intro exI [of _ "nat n - length s + k"]) (simp add: replicate_add [symmetric])
qed

lemma decimalValue_parts:
  assumes "wellFormed x" "plainDecimal x" "shortDigits x"
  shows "decimalValue (negative x) (integerPart x)
           (fractionPart x @ replicate k (CHR ''0'')) = Some x"
proof (cases x)
  case (Finite neg s n)
  then have s: "s \<noteq> []" "hd s \<noteq> CHR ''0''" "last s \<noteq> CHR ''0''"
    using assms(1) by (auto dest: isNonZeroDigit_not_zero)
  have ex: "exact s n"
    using assms(2,3) Finite by (simp add: exact_def)
  show ?thesis
  proof (cases "0 < n")
    case True
    obtain m where m: "take (nat n) s @ replicate (nat n - length s) (CHR ''0'') @ drop (nat n) s @
           replicate k (CHR ''0'') = s @ replicate m (CHR ''0'')"
      using digits_of_plain [OF True] by blast
    have len: "int (length (take (nat n) s @ replicate (nat n - length s) (CHR ''0''))) = n"
      using True by (simp add: min_def)
    show ?thesis
      using True Finite s m len ex
      by (simp add: decimalValue_def Let_def leading_zeros_none [OF s(1,2)]
          stripTrailingZeros_append [OF s(1,3)])
  next
    case False
    show ?thesis
      using False Finite s ex
      by (simp add: decimalValue_def Let_def takeWhile_replicate_same dropWhile_replicate_same
          leading_zeros_none [OF s(1,2)] stripTrailingZeros_append [OF s(1,3)])
  qed
next
  case (Zero neg)
  then show ?thesis
    by (simp add: decimalValue_def Let_def stripTrailingZeros_def)
qed (use assms in auto)

lemma JS_Number_parts:
  assumes "wellFormed x" "plainDecimal x" "shortDigits x"
  shows "JS_Number (signOf (negative x) @ integerPart x @
           fractionText (CHR ''.'') (fractionPart x @ replicate k (CHR ''0''))) = Some x"
proof -
  define fp where "fp = fractionPart x @ replicate k (CHR ''0'')"
  have di: "list_all isDigit (integerPart x)" and ne: "integerPart x \<noteq> []"
    using assms(1,2) by (simp_all add: digits_integerPart integerPart_nonempty)
  have df: "list_all isDigit fp"
    using digits_fractionPart [OF assms(1)] by (auto simp: list_all_iff fp_def)
  have dv: "decimalValue (negative x) (integerPart x) fp = Some x"
    using decimalValue_parts [OF assms, of k] by (simp add: fp_def)
  have "JS_Number (signOf (negative x) @ integerPart x @ fractionText (CHR ''.'') fp) = Some x"
  proof (cases "fp = []")
    case True
    then show ?thesis
      using JS_Number_integer [OF di ne, of "negative x"] dv by (simp add: fractionText_def)
  next
    case False
    then show ?thesis
      using JS_Number_dot [OF di df, of "negative x"] dv ne by (simp add: fractionText_def)
  qed
  then show ?thesis
    by (simp add: fp_def)
qed

section \<open>The shape of a decomposition\<close>

lemma extraction_never_matches: "extractionRegex (CHR '']'') str = None"
  by (simp add: extractionRegex_def)

lemma extraction_shape:
  assumes "d \<noteq> CHR '']''" "d \<noteq> CHR 0x5C"
  shows "\<exists>neg integer separator fraction.
           extractionRegex d str = Some (signOf neg, integer, separator, Some fraction)
         \<and> list_all isDigit integer \<and> list_all isDigit fraction
         \<and> (separator = [] \<longrightarrow> fraction = [])"
proof -
  let ?sign = "if str \<noteq> [] \<and> hd str = CHR ''-'' then ''-'' else []"
  have s: "?sign = signOf (str \<noteq> [] \<and> hd str = CHR ''-'')"
    by (simp add: signOf_def)
  show ?thesis
    using assms
    apply (simp only: extractionRegex_def Let_def s if_False)
    apply (intro exI conjI)
       apply (rule refl)
      apply (simp_all add: list_all_iff)
     apply (auto dest: set_takeWhileD)
    done
qed

lemma extraction_shape_literal:
  assumes "d \<noteq> CHR '']''" "d \<noteq> CHR 0x5C" "d \<noteq> CHR ''^''"
  shows "\<exists>neg integer separator fraction.
           extractionRegex d str = Some (signOf neg, integer, separator, Some fraction)
         \<and> list_all isDigit integer \<and> list_all isDigit fraction
         \<and> set separator \<subseteq> {d}"
proof -
  let ?sign = "if str \<noteq> [] \<and> hd str = CHR ''-'' then ''-'' else []"
  have s: "?sign = signOf (str \<noteq> [] \<and> hd str = CHR ''-'')"
    by (simp add: signOf_def)
  show ?thesis
    using assms
    apply (simp only: extractionRegex_def Let_def s if_False)
    apply (intro exI conjI)
       apply (rule refl)
      apply (simp_all add: list_all_iff separatorClass_def)
     apply (auto dest: set_takeWhileD)
    done
qed

text \<open>
  So the string that \<open>toNumber\<close> hands to the host is a sign, digits, and possibly a dot
  and digits: the part of the host's grammar that \<open>JS_Number\<close> reads. (With a backslash
  as the decimal separator the string ends in the text \<^verbatim>\<open>undefined\<close>, which the host and
  \<open>JS_Number\<close> both read as NaN.)
\<close>

lemma canonical_shape:
  assumes "d \<noteq> CHR '']''" "d \<noteq> CHR 0x5C"
  shows "\<exists>grp neg integer fraction.
           extractionRegex d str = Some grp
         \<and> list_all isDigit integer \<and> list_all isDigit fraction
         \<and> (canonical grp = signOf neg @ integer
            \<or> canonical grp = signOf neg @ integer @ CHR ''.'' # fraction)"
proof -
  obtain neg integer separator fraction where
    "extractionRegex d str = Some (signOf neg, integer, separator, Some fraction)"
    and "list_all isDigit integer" and "list_all isDigit fraction"
    and "separator = [] \<longrightarrow> fraction = []"
    using extraction_shape [OF assms, of str] by blast
  then show ?thesis
    by (cases "separator = []") (auto simp: canonical_def DOT_SIGN_def)
qed

lemma digitRun_eq: "digitRun str = (takeWhile isDigit str, dropWhile isDigit str)"
  by (induction str) auto

lemma separator_as_specified:
  assumes "d \<noteq> CHR ''^''"
  shows "optionalChar d r2 =
           (if r2 \<noteq> [] \<and> separatorClass d (hd r2) then [hd r2] else [],
            drop (length (if r2 \<noteq> [] \<and> separatorClass d (hd r2) then [hd r2] else [])) r2)"
  using assms by (cases r2) (auto simp: separatorClass_def)

lemma extraction_as_specified:
  assumes "d \<noteq> CHR '']''" "d \<noteq> CHR 0x5C" "d \<noteq> CHR ''^''"
  shows "extractionRegex d str =
     (case optionalChar (CHR ''-'') str of (sign, r1) \<Rightarrow>
     (case digitRun r1 of (integerDigits, r2) \<Rightarrow>
     (case optionalChar d r2 of (separator, r3) \<Rightarrow>
     (case digitRun r3 of (fractionDigits, r4) \<Rightarrow>
        Some (sign, integerDigits, separator, Some fractionDigits)))))"
proof -
  have sign: "optionalChar (CHR ''-'') str =
      (if str \<noteq> [] \<and> hd str = CHR ''-'' then ''-'' else [],
       drop (length (if str \<noteq> [] \<and> hd str = CHR ''-'' then ''-'' else [])) str)"
    by (cases str) auto
  show ?thesis
    unfolding sign digitRun_eq separator_as_specified [OF assms(3)]
    using assms(1,2) by (simp add: extractionRegex_def Let_def)
qed

lemma deleteMatches_Lit: "deleteMatches (Lit g) str = filter (\<lambda>c. c \<noteq> g) str"
  by (simp add: deleteMatches_def)

lemma canonical_plain:
  "canonical (sign, ip, (if fp = [] then [] else [d]), Some fp) = sign @ ip @ fractionText (CHR ''.'') fp"
  by (simp add: canonical_def fractionText_def DOT_SIGN_def)

section \<open>The characters of the output\<close>

lemma Lit_not_digit_class:
  assumes "groupSeparatorRegex g = Lit g"
  shows "g \<noteq> CHR ''d''" "g \<noteq> CHR ''w''" "g \<noteq> CHR ''S''"
  using assms by (auto simp: groupSeparatorRegex_def)

lemma filter_groupedInteger:
  assumes "list_all isDigit ds" "\<not> isDigit (groupSeparator' cfg)"
    and "groupSeparator' cfg \<noteq> CHR ''d''" "groupSeparator' cfg \<noteq> CHR ''w''"
    and "groupSeparator' cfg \<noteq> CHR ''S''"
  shows "filter (\<lambda>c. c \<noteq> groupSeparator' cfg) (groupedInteger cfg ds) = ds"
  using assms
  by (simp add: groupedInteger_def deleteMatches_digits setGroupSeparators_groupsFromRight
      filter_groupsFromRight)

lemma filter_fractionText:
  assumes "list_all isDigit fp" "\<not> isDigit g" "g \<noteq> d"
  shows "filter (\<lambda>c. c \<noteq> g) (fractionText d fp) = fractionText d fp"
  using assms by (simp add: fractionText_def filter_digits)

lemma filter_signOf: "g \<noteq> CHR ''-'' \<Longrightarrow> filter (\<lambda>c. c \<noteq> g) (signOf neg) = signOf neg"
  by (simp add: signOf_def)

lemma groupedInteger_zero:
  assumes "\<not> isDigit (groupSeparator' cfg)"
    and "groupSeparator' cfg \<noteq> CHR ''d''" "groupSeparator' cfg \<noteq> CHR ''w''"
    and "groupSeparator' cfg \<noteq> CHR ''S''"
  shows "groupedInteger cfg ''0'' = ''0''"
  using assms by (simp add: groupedInteger_def deleteMatches_digits setGroupSeparators_short)

lemma set_afterEveryThree: "set (afterEveryThree g xs) \<subseteq> insert g (set xs)"
  by (induction g xs rule: afterEveryThree.induct) auto

lemma set_setGroupSeparators: "set (setGroupSeparators g v) \<subseteq> insert g (set v)"
proof -
  define e where "e = rev (afterEveryThree g (rev v))"
  have "set e \<subseteq> insert g (set v)"
    using set_afterEveryThree [of g "rev v"] by (simp add: e_def)
  moreover have "set (tl e) \<subseteq> set e"
    by (cases e) auto
  moreover have "setGroupSeparators g v = (if e \<noteq> [] \<and> hd e = g then tl e else e)"
    by (simp add: setGroupSeparators_def e_def)
  ultimately show ?thesis
    by auto
qed

lemma set_removeBackslashC: "set (removeBackslashC str) \<subseteq> set str"
  by (induction str rule: removeBackslashC.induct) auto

lemma set_deleteMatches: "set (deleteMatches a str) \<subseteq> set str"
  using set_removeBackslashC by (auto simp: deleteMatches_def)

lemma set_groupedInteger:
  "set (groupedInteger cfg integer) \<subseteq> insert (groupSeparator' cfg) (set integer)"
  using set_setGroupSeparators [of "groupSeparator' cfg"
      "deleteMatches (groupSeparatorRegex (groupSeparator' cfg)) integer"]
    set_deleteMatches [of "groupSeparatorRegex (groupSeparator' cfg)" integer]
  by (auto simp: groupedInteger_def Let_def)

section \<open>Where the separators are read as themselves\<close>

text \<open>
  The lemmas of this section are about the configurations whose separators the two
  patterns read as the characters themselves, and about precisions below \<open>2\<^sup>3\<^sup>2\<close>.
  There the converter does what the specification says of it, but for the input without
  a digit. The theorems of the next sections are about the other configurations.
\<close>

lemma replicate_two: "replicate 2 x = [x, x]"
  by (simp add: numeral_2_eq_2)

lemma groupedInteger_small:
  "groupedInteger defaultOptions ''123'' = ''123''"
  "groupedInteger defaultOptions ''1'' = ''1''"
  "groupedInteger defaultOptions ''9873'' = ''9 873''"
  "groupedInteger defaultOptions ''100000'' = ''100 000''"
  by (simp_all add: groupedInteger_def groupSeparatorRegex_def deleteMatches_def
      setGroupSeparators_def isDigit_def)

text \<open>The examples of the README.\<close>

lemma toString_examples:
  "toString defaultOptions (Finite False ''123'' 3) = Inr ''123,00''"
  "toString defaultOptions (Finite False ''10000012'' 6) = Inr ''100 000,12''"
  "toString defaultOptions (Finite True ''98731'' 4) = Inr ''-9 873,10''"
  "toString defaultOptions (Finite False ''12345'' 1) = Inr ''1,2345''"
  by (simp_all add: toString_plain isDigit_def isNonZeroDigit_def signOf_def fractionText_def
      groupedInteger_small replicate_two)

lemma toNumber_examples:
  "toNumber defaultOptions ''123'' = Some (Inr (Finite False ''123'' 3))"
  "toNumber defaultOptions ''100 000,12'' = Some (Inr (Finite False ''10000012'' 6))"
  "toNumber defaultOptions ''-9 873,10'' = Some (Inr (Finite True ''98731'' 4))"
  by (simp_all add: toNumber_def extractionRegex_def deleteMatches_def groupSeparatorRegex_def
      canonical_def JS_Number_def decimalValue_def stripTrailingZeros_def exact_def
      DOT_SIGN_def isDigit_def separatorClass_def)

text \<open>The sign of zero.\<close>

lemma toString_zero_sign:
  assumes "decimalSeparator' cfg \<noteq> CHR '']''" and "decimalSeparator' cfg \<noteq> CHR 0x5C"
    and "\<not> isDigit (decimalSeparator' cfg)" and "\<not> isDigit (groupSeparator' cfg)"
    and "groupSeparator' cfg \<noteq> CHR ''d''" and "groupSeparator' cfg \<noteq> CHR ''w''"
    and "groupSeparator' cfg \<noteq> CHR ''S''" and "precision' cfg < 2 ^ 32"
  shows "\<exists>rest. toString cfg (Zero True) = Inr (CHR ''-'' # CHR ''0'' # rest)
           \<and> toString cfg (Zero False) = Inr (CHR ''0'' # rest)"
  using assms
  by (simp add: toString_plain groupedInteger_zero signOf_def)

text \<open>
  \<open>toString\<close> returns a string, of digits and separators after at most one sign, for
  every number.
\<close>

lemma toString_alphabet:
  assumes "decimalSeparator' cfg \<noteq> CHR '']''" and "decimalSeparator' cfg \<noteq> CHR 0x5C"
    and "decimalSeparator' cfg \<noteq> CHR ''^''" and "precision' cfg < 2 ^ 32"
  shows "\<exists>neg body. toString cfg x = Inr (signOf neg @ body)
           \<and> list_all (\<lambda>c. isDigit c \<or> c = groupSeparator' cfg \<or> c = decimalSeparator' cfg) body"
proof -
  let ?ok = "\<lambda>c. isDigit c \<or> c = groupSeparator' cfg \<or> c = decimalSeparator' cfg"
  obtain neg integer separator fraction where
    ex: "extractionRegex (decimalSeparator' cfg) (valueAsString cfg x)
           = Some (signOf neg, integer, separator, Some fraction)"
    and di: "list_all isDigit integer" and df: "list_all isDigit fraction"
    and sep: "set separator \<subseteq> {decimalSeparator' cfg}"
    using extraction_shape_literal [OF assms(1-3)] by blast
  have gi: "list_all ?ok (groupedInteger cfg integer)"
    using set_groupedInteger [of cfg integer] di by (auto simp: list_all_iff)
  have fr: "list_all ?ok fraction" and se: "list_all ?ok separator"
    using df sep by (auto simp: list_all_iff)
  have zs: "list_all ?ok (replicate k (CHR ''0''))" for k
    by (simp add: list_all_iff)
  show ?thesis
  proof (cases "precision' cfg \<noteq> 0 \<and> length fraction < precision' cfg")
    case True
    then have "toString cfg x = Inr (signOf neg @ (groupedInteger cfg integer @
        [decimalSeparator' cfg] @ fraction @
        replicate (precision' cfg - length fraction) (CHR ''0'')))"
      using assms(4) by (auto simp: toString_def ex Let_def)
    moreover have "list_all ?ok (groupedInteger cfg integer @
        [decimalSeparator' cfg] @ fraction @
        replicate (precision' cfg - length fraction) (CHR ''0''))"
      using gi fr zs by simp
    ultimately show ?thesis by blast
  next
    case False
    then have "toString cfg x = Inr (signOf neg @ (groupedInteger cfg integer @
        separator @ fraction))"
      by (auto simp: toString_def ex Let_def)
    moreover have "list_all ?ok (groupedInteger cfg integer @ separator @ fraction)"
      using gi fr se by simp
    ultimately show ?thesis by blast
  qed
qed

text \<open>Padding the fraction, and passing it through.\<close>

lemma toString_pads_fraction:
  assumes "wellFormed x" and "plainDecimal x"
    and "decimalSeparator' cfg \<noteq> CHR '']''" and "decimalSeparator' cfg \<noteq> CHR 0x5C"
    and "\<not> isDigit (decimalSeparator' cfg)"
    and "0 < precision' cfg" and "length (fractionPart x) < precision' cfg"
    and "precision' cfg < 2 ^ 32"
  shows "toString cfg x =
           Inr (signOf (negative x) @ groupedInteger cfg (integerPart x) @
                [decimalSeparator' cfg] @ fractionPart x @
                replicate (precision' cfg - length (fractionPart x)) (CHR ''0''))
         \<and> length (fractionPart x @
                replicate (precision' cfg - length (fractionPart x)) (CHR ''0'')) = precision' cfg"
  using assms by (simp add: toString_plain fractionText_def)

lemma toString_passes_fraction:
  assumes "wellFormed x" and "plainDecimal x"
    and "decimalSeparator' cfg \<noteq> CHR '']''" and "decimalSeparator' cfg \<noteq> CHR 0x5C"
    and "\<not> isDigit (decimalSeparator' cfg)"
    and "precision' cfg \<le> length (fractionPart x)"
  shows "toString cfg x =
           Inr (signOf (negative x) @ groupedInteger cfg (integerPart x) @
                fractionText (decimalSeparator' cfg) (fractionPart x))"
  using assms by (simp add: toString_plain)

text \<open>Grouping.\<close>

lemma grouping_from_the_right:
  assumes "ds \<noteq> []" and "list_all isDigit ds"
    and "\<not> isDigit (groupSeparator' cfg)"
    and "groupSeparator' cfg \<noteq> CHR ''d''" and "groupSeparator' cfg \<noteq> CHR ''w''"
    and "groupSeparator' cfg \<noteq> CHR ''S''"
  shows "groupedInteger cfg ds = setGroupSeparators (groupSeparator' cfg) ds
       \<and> setGroupSeparators (groupSeparator' cfg) ds = groupsFromRight (groupSeparator' cfg) ds
       \<and> groupedInteger cfg ds \<noteq> []
       \<and> hd (groupedInteger cfg ds) \<noteq> groupSeparator' cfg
       \<and> filter (\<lambda>c. c \<noteq> groupSeparator' cfg) (groupedInteger cfg ds) = ds"
proof -
  let ?g = "groupSeparator' cfg"
  have a: "groupedInteger cfg ds = setGroupSeparators ?g ds"
    using assms by (simp add: groupedInteger_def deleteMatches_digits)
  have b: "setGroupSeparators ?g ds = groupsFromRight ?g ds"
    using assms by (simp add: setGroupSeparators_groupsFromRight)
  have c: "filter (\<lambda>c. c \<noteq> ?g) (groupsFromRight ?g ds) = ds"
    using assms by (simp add: filter_groupsFromRight)
  have ne: "groupsFromRight ?g ds \<noteq> []"
    using c assms(1) by auto
  have "isDigit (hd ds)"
    using assms(1,2) by (cases ds) auto
  then have d: "hd (groupsFromRight ?g ds) \<noteq> ?g"
    using assms(1,3) by (auto simp: hd_groupsFromRight)
  show ?thesis
    using a b c d ne by simp
qed

text \<open>
  So the output of \<open>toString\<close> for a number in plain decimal notation is the sign, the
  integer digits of the host's text grouped from the right, and the fraction.
\<close>

lemma toString_groups:
  assumes "wellFormed x" and "plainDecimal x"
    and "decimalSeparator' cfg \<noteq> CHR '']''" and "decimalSeparator' cfg \<noteq> CHR 0x5C"
    and "\<not> isDigit (decimalSeparator' cfg)"
    and "precision' cfg - length (fractionPart x) < 2 ^ 32"
    and "\<not> isDigit (groupSeparator' cfg)"
    and "groupSeparator' cfg \<noteq> CHR ''d''" and "groupSeparator' cfg \<noteq> CHR ''w''"
    and "groupSeparator' cfg \<noteq> CHR ''S''"
  shows "toString cfg x =
           Inr (signOf (negative x) @ groupsFromRight (groupSeparator' cfg) (integerPart x) @
                fractionText (decimalSeparator' cfg)
                  (fractionPart x @
                   replicate (precision' cfg - length (fractionPart x)) (CHR ''0'')))"
proof -
  have "groupedInteger cfg (integerPart x)
          = groupsFromRight (groupSeparator' cfg) (integerPart x)"
    using grouping_from_the_right [of "integerPart x" cfg] assms(1,2,7-10)
    by (simp add: digits_integerPart integerPart_nonempty)
  then show ?thesis
    using toString_plain [OF assms(1-6)] by simp
qed

text \<open>Parsing as specified.\<close>

lemma toNumber_as_specified:
  assumes "value \<noteq> []"
    and "groupSeparatorRegex (groupSeparator' cfg) = Lit (groupSeparator' cfg)"
    and "decimalSeparator' cfg \<noteq> CHR '']''" and "decimalSeparator' cfg \<noteq> CHR 0x5C"
    and "decimalSeparator' cfg \<noteq> CHR ''^''"
  shows "deleteMatches (groupSeparatorRegex (groupSeparator' cfg)) value
           = filter (\<lambda>c. c \<noteq> groupSeparator' cfg) value
       \<and> toNumber cfg value = map_option Inr (parseAsSpecified cfg value)"
proof -
  let ?str = "filter (\<lambda>a. a \<noteq> groupSeparator' cfg) value"
  obtain sign r1 where o1: "optionalChar (CHR ''-'') ?str = (sign, r1)"
    by force
  obtain integer r2 where o2: "digitRun r1 = (integer, r2)"
    by force
  obtain separator r3 where o3: "optionalChar (decimalSeparator' cfg) r2 = (separator, r3)"
    by force
  obtain fraction r4 where o4: "digitRun r3 = (fraction, r4)"
    by force
  have "extractionRegex (decimalSeparator' cfg) ?str
          = Some (sign, integer, separator, Some fraction)"
    using assms(3-5) by (simp add: extraction_as_specified o1 o2 o3 o4)
  then show ?thesis
    using assms(1,2)
    by (simp add: toNumber_def parseAsSpecified_def deleteMatches_Lit o1 o2 o3 o4 canonical_def
        DOT_SIGN_def)
qed

text \<open>
  What \<open>toNumber\<close> returns without a digit: it raises nothing, and the result is NaN
  exactly for the empty input and for a sign or a separator without a digit; when the
  decomposition of an input that is not empty is empty altogether, the result is 0.
\<close>

lemma toNumber_NaN_iff:
  assumes "decimalSeparator' cfg \<noteq> CHR '']''" and "decimalSeparator' cfg \<noteq> CHR 0x5C"
  shows "\<exists>sign integer separator fraction.
           extractionRegex (decimalSeparator' cfg)
             (deleteMatches (groupSeparatorRegex (groupSeparator' cfg)) value)
             = Some (sign, integer, separator, Some fraction)
         \<and> (\<exists>r. toNumber cfg value = map_option Inr r)
         \<and> (toNumber cfg value = Some (Inr NaN)) =
             (value = [] \<or> (integer = [] \<and> fraction = [] \<and> (sign \<noteq> [] \<or> separator \<noteq> [])))
         \<and> (value \<noteq> [] \<and> sign = [] \<and> integer = [] \<and> separator = []
              \<longrightarrow> toNumber cfg value = Some (Inr (Zero False)))"
proof -
  let ?str = "deleteMatches (groupSeparatorRegex (groupSeparator' cfg)) value"
  obtain neg integer separator fraction where
    ex: "extractionRegex (decimalSeparator' cfg) ?str
           = Some (signOf neg, integer, separator, Some fraction)"
    and di: "list_all isDigit integer" and df: "list_all isDigit fraction"
    and sf: "separator = [] \<longrightarrow> fraction = []"
    using extraction_shape [OF assms, of ?str] by blast
  let ?n = "JS_Number (canonical (signOf neg, integer, separator, Some fraction))"
  have tn: "toNumber cfg value = map_option Inr (if value = [] then Some NaN else ?n)"
    by (simp add: toNumber_def ex)
  have nan: "(?n = Some NaN) =
               (integer = [] \<and> fraction = [] \<and> (signOf neg \<noteq> [] \<or> separator \<noteq> []))"
  proof (cases "separator = []")
    case True
    then have f: "fraction = []" using sf by simp
    show ?thesis
    proof (cases "integer = []")
      case True
      then show ?thesis
        using f \<open>separator = []\<close>
        by (cases neg) (simp_all add: canonical_def signOf_def JS_Number_def)
    next
      case False
      then show ?thesis
        using f \<open>separator = []\<close> JS_Number_integer [OF di False, of neg]
        by (simp add: canonical_def)
    qed
  next
    case False
    then show ?thesis
      using JS_Number_dot [OF di df, of neg] by (simp add: canonical_def DOT_SIGN_def)
  qed
  have zero: "JS_Number (canonical ([], [], [], Some [])) = Some (Zero False)"
    by (simp add: canonical_def JS_Number_def)
  have inj: "(map_option Inr r = Some (Inr NaN)) = (r = Some NaN)" for r :: "number option"
    by (cases r) auto
  have raises: "\<exists>r. toNumber cfg value = map_option Inr r"
    using tn by blast
  have iff: "(toNumber cfg value = Some (Inr NaN)) =
      (value = [] \<or> (integer = [] \<and> fraction = [] \<and> (signOf neg \<noteq> [] \<or> separator \<noteq> [])))"
    using nan by (simp add: tn inj)
  have empty: "toNumber cfg value = Some (Inr (Zero False))"
    if "value \<noteq> []" "signOf neg = []" "integer = []" "separator = []"
    using that sf zero by (simp add: tn)
  show ?thesis
    using ex raises iff empty by blast
qed

text \<open>
  After the group separators, a first character that is neither the sign, a digit nor
  the decimal separator gives 0.
\<close>

lemma toNumber_garbage_is_zero:
  assumes "deleteMatches (groupSeparatorRegex (groupSeparator' cfg)) value = c # rest"
    and "c \<noteq> CHR ''-''" and "\<not> isDigit c" and "c \<noteq> decimalSeparator' cfg"
    and "decimalSeparator' cfg \<noteq> CHR '']''" and "decimalSeparator' cfg \<noteq> CHR 0x5C"
    and "decimalSeparator' cfg \<noteq> CHR ''^''"
  shows "extractionRegex (decimalSeparator' cfg) (c # rest) = Some ([], [], [], Some [])
       \<and> canonical ([], [], [], Some []) = []
       \<and> toNumber cfg value = Some (Inr (Zero False))"
proof -
  have ex: "extractionRegex (decimalSeparator' cfg) (c # rest) = Some ([], [], [], Some [])"
    using assms(2-) by (simp add: extractionRegex_def separatorClass_def)
  have "value \<noteq> []"
    using assms(1) by (auto simp: deleteMatches_def split: if_splits)
  then show ?thesis
    using assms(1) ex by (simp add: toNumber_def canonical_def JS_Number_def)
qed

text \<open>
  Formatting and parsing back: for a number in plain decimal notation, of at most 15
  digits, the number is read back.
\<close>

lemma round_trip:
  assumes "wellFormed x" and "plainDecimal x" and "shortDigits x"
    and "length (fractionPart x) \<le> precision' cfg" and "precision' cfg < 2 ^ 32"
    and "groupSeparatorRegex (groupSeparator' cfg) = Lit (groupSeparator' cfg)"
    and "\<not> isDigit (groupSeparator' cfg)" and "groupSeparator' cfg \<noteq> CHR ''-''"
    and "groupSeparator' cfg \<noteq> decimalSeparator' cfg"
    and "\<not> isDigit (decimalSeparator' cfg)"
    and "decimalSeparator' cfg \<noteq> CHR '']''" and "decimalSeparator' cfg \<noteq> CHR 0x5C"
  shows "\<exists>str. toString cfg x = Inr str \<and> toNumber cfg str = Some (Inr x)"
proof -
  let ?g = "groupSeparator' cfg" and ?d = "decimalSeparator' cfg"
  define fp where
    "fp = fractionPart x @ replicate (precision' cfg - length (fractionPart x)) (CHR ''0'')"
  define str where
    "str = signOf (negative x) @ groupedInteger cfg (integerPart x) @ fractionText ?d fp"
  have di: "list_all isDigit (integerPart x)" and ne: "integerPart x \<noteq> []"
    using assms(1,2) by (simp_all add: digits_integerPart integerPart_nonempty)
  have df: "list_all isDigit fp"
    using digits_fractionPart [OF assms(1)] by (auto simp: list_all_iff fp_def)
  have bound: "precision' cfg - length (fractionPart x) < 2 ^ 32"
    using assms(5) by simp
  have ts: "toString cfg x = Inr str"
    using toString_plain [OF assms(1,2,11,12,10) bound] by (simp add: str_def fp_def)
  have gi: "filter (\<lambda>c. c \<noteq> ?g) (groupedInteger cfg (integerPart x)) = integerPart x"
    using filter_groupedInteger [OF di assms(7) Lit_not_digit_class [OF assms(6)]] .
  have stripped: "deleteMatches (groupSeparatorRegex ?g) str
        = signOf (negative x) @ integerPart x @ fractionText ?d fp"
    using assms(6-9) df gi
    by (simp add: deleteMatches_Lit str_def filter_signOf filter_fractionText)
  have "groupedInteger cfg (integerPart x) \<noteq> []"
    using gi ne by auto
  then have nonempty: "str \<noteq> []"
    by (simp add: str_def)
  have "extractionRegex ?d (deleteMatches (groupSeparatorRegex ?g) str)
          = Some (signOf (negative x), integerPart x, (if fp = [] then [] else [?d]), Some fp)"
    unfolding stripped using extraction_plain [OF assms(11,12,10) di ne df] .
  then have "toNumber cfg str = map_option Inr
      (JS_Number (signOf (negative x) @ integerPart x @ fractionText (CHR ''.'') fp))"
    using nonempty by (simp add: toNumber_def canonical_plain)
  then have "toNumber cfg str = Some (Inr x)"
    using JS_Number_parts [OF assms(1,2,3)] by (simp add: fp_def)
  then show ?thesis
    using ts by blast
qed

text \<open>
  The negative sign as the group separator is read as itself, and deleted with the
  separators when the text is parsed.
\<close>

lemma round_trip_minus_separator:
  "toString (defaultOptions\<lparr>groupSeparator' := CHR ''-''\<rparr>) (Finite True ''1234'' 4)
     = Inr ''-1-234,00''"
  "toNumber (defaultOptions\<lparr>groupSeparator' := CHR ''-''\<rparr>) ''-1-234,00''
     = Some (Inr (Finite False ''1234'' 4))"
  by (simp_all add: toString_def valueAsString_def toNumber_def extractionRegex_def
      groupedInteger_def setGroupSeparators_def deleteMatches_def groupSeparatorRegex_def
      canonical_def JS_Number_def decimalValue_def stripTrailingZeros_def exact_def
      signOf_def DOT_SIGN_def isDigit_def separatorClass_def replicate_two)

section \<open>The decimal separator in the extraction pattern\<close>

text \<open>
  The pattern \<^verbatim>\<open>([-]?)([0-9]*)([${decimalSeparator}]?)([0-9]*)\<close> puts the decimal
  separator into a character class so as to read it as itself. Three printable
  characters that are no digits are not read so: with \<^verbatim>\<open>]\<close> the pattern matches no string
  and the destructuring of \<^verbatim>\<open>null\<close> raises a TypeError, with a backslash there is no
  fourth group, and with \<^verbatim>\<open>^\<close> the class holds every character.
\<close>

text \<open>
  C3. The claim is that, for every valid configuration, \<open>toString\<close> of negative zero is a
  string that begins with the negative sign and \<open>toString\<close> of positive zero is a string
  that does not. \<open>toString_zero_sign\<close> above shows it for the separators the extraction
  pattern reads as themselves. With the decimal separator \<^verbatim>\<open>]\<close>, a printable character
  that is no digit, the pattern matches no string and \<open>toString\<close> of negative zero
  raises a TypeError instead of returning a string.
\<close>

theorem toString_negative_zero_bracket:
  "toString (defaultOptions\<lparr>decimalSeparator' := CHR '']''\<rparr>) (Zero True) = Inl TypeError"
  by (simp add: toString_def extraction_never_matches)

text \<open>
  C8. The claim is that \<open>toString\<close> never throws for a finite number, and that its
  output holds only digits, the two separators and at most one leading sign.
  \<open>toString_alphabet\<close> above shows both for every decimal separator but \<^verbatim>\<open>]\<close>, backslash
  and \<^verbatim>\<open>^\<close>. With the decimal separator \<^verbatim>\<open>]\<close>, \<open>toString\<close> of 123 raises a TypeError.
\<close>

theorem toString_throws_bracket:
  "toString (defaultOptions\<lparr>decimalSeparator' := CHR '']''\<rparr>) (Finite False ''123'' 3)
     = Inl TypeError"
  by (simp add: toString_def extraction_never_matches)

text \<open>
  The other two separators that change the extraction pattern: with a backslash the
  fraction is undefined, so \<open>toString\<close> raises when the precision is not zero and
  appends the text \<^verbatim>\<open>undefined\<close> when it is; with \<^verbatim>\<open>^\<close> and precision 0 the letter of an
  exponent is taken for the separator.
\<close>

lemma toString_other_patterns:
  "toString (defaultOptions\<lparr>decimalSeparator' := CHR 0x5C\<rparr>) (Finite False ''5'' 1)
     = Inl TypeError"
  "toString (defaultOptions\<lparr>precision' := 0, decimalSeparator' := CHR 0x5C\<rparr>)
     (Finite False ''5'' 1) = Inr ''5undefined''"
  "toString (defaultOptions\<lparr>precision' := 0, decimalSeparator' := CHR ''^''\<rparr>)
     (Finite False ''1'' 22) = Inr ''1e''"
  by (simp_all add: toString_def valueAsString_def extractionRegex_def groupedInteger_def
      setGroupSeparators_def deleteMatches_def groupSeparatorRegex_def signOf_def DOT_SIGN_def
      isDigit_def escapedClass_def separatorClass_def)

text \<open>
  C4. The claim is that, when the host's decimal text of the number has at least as many
  fraction digits as the precision (or the precision is 0 and there is a fraction),
  \<open>toString\<close> emits the separator as found and the fraction digits unchanged, so that
  with precision 2 the output for 1.2345 holds all four fraction digits after the decimal
  separator. \<open>toString_passes_fraction\<close> above shows it for the decimal separators the
  extraction pattern reads as themselves. With the decimal separator \<^verbatim>\<open>]\<close> and precision
  2, \<open>toString\<close> of 1.2345, which the host prints as \<^verbatim>\<open>1.2345\<close>, raises a TypeError
  and emits nothing.
\<close>

theorem toString_passes_fraction_bracket:
  "JS_String (Finite False ''12345'' 1) = ''1.2345''
   \<and> precision' (defaultOptions\<lparr>decimalSeparator' := CHR '']''\<rparr>) = 2
   \<and> toString (defaultOptions\<lparr>decimalSeparator' := CHR '']''\<rparr>) (Finite False ''12345'' 1)
       = Inl TypeError"
  by (simp add: toString_def extraction_never_matches signOf_def)

text \<open>
  C5. The claim is that, when the precision is positive and the fraction digits of the
  host's text are fewer, \<open>toString\<close> pads them on the right with zeros to exactly the
  precision and emits the decimal separator and the padded fraction, so that with
  precision 2 and the default separators the output for 123 is \<^verbatim>\<open>123,00\<close>.
  \<open>toString_pads_fraction\<close> and \<open>toString_examples\<close> above show it for the decimal
  separators the extraction pattern reads as themselves and the precisions below
  \<open>2\<^sup>3\<^sup>2\<close>. With a backslash as the decimal separator and precision 2 the pattern has no
  fourth group, the fraction is undefined, and \<open>toString\<close> of 123 raises a TypeError on
  its length; and with the default separators and the precision \<open>2\<^sup>3\<^sup>2\<close> the array of
  zeros cannot be made and \<open>toString\<close> of 123 raises a RangeError.
\<close>

theorem toString_pads_fraction_backslash:
  "toString (defaultOptions\<lparr>decimalSeparator' := CHR 0x5C\<rparr>) (Finite False ''123'' 3)
     = Inl TypeError
   \<and> toString (defaultOptions\<lparr>precision' := 2 ^ 32\<rparr>) (Finite False ''123'' 3)
     = Inl RangeError"
  by (simp add: toString_def valueAsString_def extractionRegex_def groupedInteger_def
      setGroupSeparators_def deleteMatches_def groupSeparatorRegex_def signOf_def DOT_SIGN_def
      isDigit_def escapedClass_def separatorClass_def)

text \<open>
  C9. The claim is that, for every input that is not empty and that begins, once the
  group separators are deleted, with a character that is neither the negative sign, a
  digit nor the decimal separator, \<open>toNumber\<close> returns 0, as for \<^verbatim>\<open>abc\<close>.
  \<open>toNumber_garbage_is_zero\<close> above shows it for the decimal separators the extraction
  pattern reads as themselves. With the decimal separator \<^verbatim>\<open>]\<close>, \<open>toNumber\<close> of
  \<^verbatim>\<open>abc\<close> raises a TypeError; with \<^verbatim>\<open>^\<close> the class takes the letter \<^verbatim>\<open>a\<close> for the
  separator, the host is handed a lone dot, and \<open>toNumber\<close> of \<^verbatim>\<open>abc\<close> is NaN.
\<close>

theorem toNumber_garbage_bracket:
  "toNumber (defaultOptions\<lparr>decimalSeparator' := CHR '']''\<rparr>) ''abc'' = Some (Inl TypeError)
   \<and> toNumber (defaultOptions\<lparr>decimalSeparator' := CHR ''^''\<rparr>) ''abc'' = Some (Inr NaN)"
  by (simp add: toNumber_def extractionRegex_def deleteMatches_def groupSeparatorRegex_def
      canonical_def JS_Number_def DOT_SIGN_def isDigit_def separatorClass_def)

section \<open>The group separator in its pattern\<close>

text \<open>
  The pattern \<^verbatim>\<open>\\${groupSeparator}\<close> puts a backslash before the group separator so as to
  read it as itself. For the letters \<^verbatim>\<open>d D s S w W b B c t n v f r\<close> the escape is another
  pattern: a class of characters, an assertion or a control character.
\<close>

text \<open>
  C6. The claim is that, for every string of digits that is not empty, the grouping step
  of \<open>toString\<close> puts the group separator after every three digits counted from the
  right, never at the front, and that the integer part of the output of \<open>toString\<close>
  without its group separators is the integer digits of the host's text.
  \<open>grouping_from_the_right\<close> above shows it for the group separators whose escape holds
  no digit. With the group separator \<^verbatim>\<open>d\<close> the strip before the grouping deletes every
  digit: the integer part that \<open>toString\<close> emits for 1234, which the host prints as
  \<^verbatim>\<open>1234\<close>, is empty, and the output is \<^verbatim>\<open>,00\<close>.
\<close>

theorem grouping_deletes_digits:
  "JS_String (Finite False ''1234'' 4) = ''1234''
   \<and> groupedInteger (defaultOptions\<lparr>groupSeparator' := CHR ''d''\<rparr>) ''1234'' = []
   \<and> toString (defaultOptions\<lparr>groupSeparator' := CHR ''d''\<rparr>) (Finite False ''1234'' 4)
       = Inr '',00''"
  by (simp add: toString_def valueAsString_def extractionRegex_def groupedInteger_def
      setGroupSeparators_def deleteMatches_def groupSeparatorRegex_def signOf_def DOT_SIGN_def
      isDigit_def separatorClass_def replicate_two)

text \<open>
  C7. The claim is that, for every valid configuration and every input, \<open>toNumber\<close>
  deletes exactly the group separators, decomposes the rest into sign, integer digits,
  at most one decimal separator and fraction digits, and returns the host's reading of
  sign, integer digits, a dot if there was a separator, and fraction digits, as
  \<open>parseAsSpecified\<close> does. \<open>toNumber_as_specified\<close> and \<open>toNumber_examples\<close> above show
  it for the separators the two patterns read as themselves. With the group separator
  \<^verbatim>\<open>t\<close> the pattern deletes tabulators and leaves the letter where it is: \<open>toNumber\<close> of
  \<^verbatim>\<open>1t234\<close> is 1, and the steps of the claim give 1234.
\<close>

theorem toNumber_escaped_separator:
  "toNumber (defaultOptions\<lparr>groupSeparator' := CHR ''t''\<rparr>) ''1t234''
     = Some (Inr (Finite False ''1'' 1))
   \<and> parseAsSpecified (defaultOptions\<lparr>groupSeparator' := CHR ''t''\<rparr>) ''1t234''
     = Some (Finite False ''1234'' 4)"
  by (simp add: toNumber_def parseAsSpecified_def extractionRegex_def deleteMatches_def
      groupSeparatorRegex_def canonical_def JS_Number_def decimalValue_def
      stripTrailingZeros_def exact_def DOT_SIGN_def isDigit_def separatorClass_def)

text \<open>
  C1. The claim is that, under every valid configuration, \<open>toNumber\<close> of \<open>toString\<close> of
  a finite number whose fraction has at most as many digits as the precision is that
  number. \<open>round_trip\<close> above shows it for the numbers the host prints in plain decimal
  notation and the separators the two patterns read as themselves. With the group
  separator \<^verbatim>\<open>t\<close>, \<open>toString\<close> of 1234 is \<^verbatim>\<open>1t234,00\<close>, the pattern that should
  delete the separators deletes tabulators, and \<open>toNumber\<close> reads the text as 1.
\<close>

theorem round_trip_escaped_separator:
  "JS_String (Finite False ''1234'' 4) = ''1234''
   \<and> length (fractionPart (Finite False ''1234'' 4))
       \<le> precision' (defaultOptions\<lparr>groupSeparator' := CHR ''t''\<rparr>)
   \<and> toString (defaultOptions\<lparr>groupSeparator' := CHR ''t''\<rparr>) (Finite False ''1234'' 4)
       = Inr ''1t234,00''
   \<and> toNumber (defaultOptions\<lparr>groupSeparator' := CHR ''t''\<rparr>) ''1t234,00''
       = Some (Inr (Finite False ''1'' 1))"
  by (simp add: toString_def valueAsString_def toNumber_def extractionRegex_def
      groupedInteger_def setGroupSeparators_def deleteMatches_def groupSeparatorRegex_def
      canonical_def JS_Number_def decimalValue_def stripTrailingZeros_def exact_def
      signOf_def DOT_SIGN_def isDigit_def separatorClass_def replicate_two)

section \<open>An input without a digit\<close>

text \<open>
  C2. The claim is that \<open>toNumber\<close> raises nothing and returns NaN exactly when its
  input is empty or decomposes to no digit at all, and a number for every other input.
  \<open>toNumber\<close> returns NaN for the empty input, by its first line, and for a sign or a
  separator without a digit (\<open>toNumber_NaN_iff\<close> above). The decomposition of \<^verbatim>\<open>abc\<close>, and
  of a lone group separator, has no digit at all: there the host is handed the empty
  string, which the first line was to keep from it, and \<open>toNumber\<close> returns 0. With the
  decimal separator \<^verbatim>\<open>]\<close>, \<open>toNumber\<close> of \<^verbatim>\<open>5\<close> raises a TypeError.
\<close>

theorem toNumber_no_digits_is_zero:
  "extractionRegex (decimalSeparator' defaultOptions)
      (deleteMatches (groupSeparatorRegex (groupSeparator' defaultOptions)) ''abc'')
     = Some ([], [], [], Some [])
   \<and> toNumber defaultOptions ''abc'' = Some (Inr (Zero False))
   \<and> toNumber defaultOptions '' '' = Some (Inr (Zero False))
   \<and> toNumber defaultOptions [] = Some (Inr NaN)
   \<and> toNumber (defaultOptions\<lparr>decimalSeparator' := CHR '']''\<rparr>) ''5'' = Some (Inl TypeError)"
  by (simp add: toNumber_def extractionRegex_def deleteMatches_def groupSeparatorRegex_def
      isDigit_def separatorClass_def canonical_def JS_Number_def)

section \<open>Non-finite input\<close>

text \<open>
  C10. With the default options, \<open>toString\<close> of NaN and of Infinity is \<^verbatim>\<open>,00\<close> and of
  -Infinity is \<^verbatim>\<open>-,00\<close>: the host's text has no leading digit, every part of the
  decomposition but the sign is empty, and the padding branch appends the decimal
  separator and two zeros.
\<close>

theorem toString_non_finite:
  "toString defaultOptions NaN = Inr '',00''
   \<and> toString defaultOptions (Infinity False) = Inr '',00''
   \<and> toString defaultOptions (Infinity True) = Inr ''-,00''"
  by (simp add: toString_def valueAsString_def defaultOptions_def extractionRegex_def
      groupedInteger_def signOf_def DOT_SIGN_def isDigit_def separatorClass_def
      replicate_two)

end
